theory Spec2Isabelle
  imports Main "HOL-Library.Word" "HOL-Library.Multiset"
begin

section \<open>Data model of dualscreen\_lvgl.c\<close>

text \<open>
  The C types \<open>int32_t\<close> and \<open>uint32_t\<close> are 32-bit words; a signed value is read with
  \<open>sint\<close>, signed comparisons are \<open><s\<close> and \<open>\<le>s\<close>, and a conversion between the two C
  types keeps the bits.  A pointer is a mathematical byte address (an \<open>int\<close>): \<open>NULL\<close> is
  0 and \<open>MAP_FAILED\<close> is \<open>(void * ) -1\<close>.  Pointer arithmetic adds the (signed or unsigned)
  value of the offset to the address.
\<close>

type_synonym int32_t = "32 word"
type_synonym uint32_t = "32 word"
type_synonym addr = int

abbreviation (input) NULL :: addr where "NULL \<equiv> 0"
abbreviation (input) MAP_FAILED :: addr where "MAP_FAILED \<equiv> - 1"

abbreviation (input) SCREEN_WIDTH :: "32 word" where "SCREEN_WIDTH \<equiv> 960"
abbreviation (input) SCREEN_HEIGHT :: "32 word" where "SCREEN_HEIGHT \<equiv> 720"
abbreviation (input) VIRTUAL_WIDTH :: "32 word" where "VIRTUAL_WIDTH \<equiv> SCREEN_WIDTH * 2"
abbreviation (input) VIRTUAL_HEIGHT :: "32 word" where "VIRTUAL_HEIGHT \<equiv> SCREEN_HEIGHT"
abbreviation (input) COLOR_DEPTH :: "32 word" where "COLOR_DEPTH \<equiv> 32"
abbreviation (input) BYTES_PER_PIXEL :: "32 word" where "BYTES_PER_PIXEL \<equiv> COLOR_DEPTH div 8"

text \<open>\<open>lv_area_t\<close>: an inclusive rectangle of the virtual canvas.\<close>

record lv_area =
  x1 :: int32_t
  y1 :: int32_t
  x2 :: int32_t
  y2 :: int32_t

text \<open>\<open>dma_2d_config_t\<close>.\<close>

record dma_2d_config =
  src :: addr
  dst :: addr
  width :: uint32_t
  height :: uint32_t
  src_stride :: uint32_t
  dst_stride :: uint32_t
  bpp :: uint32_t

text \<open>
  \<open>dma_request_t\<close>.  The member \<open>work\<close> belongs to the work queue; what the queue keeps
  of it is the field \<open>hpwork\<close> of the state below.
\<close>

record dma_request =
  cfg :: dma_2d_config
  disp :: addr
  notify :: bool

text \<open>\<open>dualscreen_ctx_t\<close>; \<open>dma_req\<close> is the array of two request structures.\<close>

record dualscreen_ctx =
  fd_left :: int
  fd_right :: int
  mem_left :: addr
  mem_right :: addr
  stride_left :: uint32_t
  stride_right :: uint32_t
  fblen_left :: nat
  fblen_right :: nat
  draw_buf :: addr
  draw_buf2 :: addr
  dma_req :: "dma_request list"

text \<open>
  The calls that leave the file are recorded in a trace, in the order in which they are made:
  \<open>work_queue(HPWORK, &dma_req[i].work, dma_worker, &dma_req[i], 0)\<close> with the contents
  of the request structure at the time of the call, \<open>memcpy(d, s, n)\<close> and
  \<open>lv_display_flush_ready(disp)\<close>.
\<close>

datatype event =
  is_WorkQueue: WorkQueue nat dma_request
| is_Memcpy: Memcpy addr addr nat
| is_FlushReady: FlushReady addr

text \<open>
  The state the flush path works on: the static context \<open>g_ctx\<close> (the driver data of the
  display), the pending items of the high-priority work queue (item \<open>i\<close> stands for
  \<open>&g_ctx.dma_req[i]\<close>), the byte memory, and the trace.
\<close>

record world =
  g_ctx :: dualscreen_ctx
  hpwork :: "nat list"
  ram :: "addr \<Rightarrow> 8 word"
  trace :: "event list"

text \<open>
  \<open>work_queue\<close> is a function of the operating system.  It is a parameter of the model:
  from the pending items and the item submitted it gives the returned code (zero, or a
  negated errno) and the pending items afterwards.
\<close>

type_synonym work_queue_fn = "nat list \<Rightarrow> nat \<Rightarrow> int \<times> nat list"

section \<open>The transfer executor\<close>

text \<open>
  \<open>memcpy(d, s, n)\<close> for regions that do not overlap (the behaviour of the C function is
  undefined otherwise): the \<open>n\<close> bytes at \<open>d\<close> become the bytes that were at \<open>s\<close>.
\<close>

definition memcpy :: "addr \<Rightarrow> addr \<Rightarrow> nat \<Rightarrow> world \<Rightarrow> world" where
  "memcpy d s n w =
     w\<lparr>ram := (\<lambda>a. if d \<le> a \<and> a < d + int n then ram w (s + (a - d)) else ram w a),
       trace := trace w @ [Memcpy d s n]\<rparr>"

definition lv_display_flush_ready :: "addr \<Rightarrow> world \<Rightarrow> world" where
  "lv_display_flush_ready dsp w = w\<lparr>trace := trace w @ [FlushReady dsp]\<rparr>"

text \<open>
  The loop \<open>while (h--) { memcpy(d, s, line_bytes); s += src_stride; d += dst_stride; }\<close>
  of \<open>dma_worker\<close>, with the loop variables as arguments.
\<close>

function copy_rows ::
  "dma_2d_config \<Rightarrow> uint32_t \<Rightarrow> addr \<Rightarrow> addr \<Rightarrow> uint32_t \<Rightarrow> world \<Rightarrow> world" where
  "copy_rows c line_bytes s d h w =
     (if h = 0 then w
      else copy_rows c line_bytes (s + uint (src_stride c)) (d + uint (dst_stride c)) (h - 1)
             (memcpy d s (unat line_bytes) w))"
  by pat_completeness auto
termination
  by (relation "measure (\<lambda>(c, line_bytes, s, d, h, w). unat h)") (auto simp: measure_unat)

declare copy_rows.simps [simp del]

definition dma_worker :: "dma_request \<Rightarrow> world \<Rightarrow> world" where
  "dma_worker req w =
     (let s = src (cfg req);
          d = dst (cfg req);
          line_bytes = width (cfg req) * bpp (cfg req);
          h = height (cfg req);
          w1 = copy_rows (cfg req) line_bytes s d h w
      in if notify req \<and> disp req \<noteq> NULL then lv_display_flush_ready (disp req) w1 else w1)"

section \<open>Submission and the flush callback\<close>

text \<open>
  The call of \<open>work_queue\<close>: the trace gets the call, the queue becomes what the operating
  system makes of it, and the returned code is the result.
\<close>

definition work_queue :: "work_queue_fn \<Rightarrow> nat \<Rightarrow> dma_request \<Rightarrow> world \<Rightarrow> int \<times> world" where
  "work_queue wq i req w =
     (fst (wq (hpwork w) i),
      w\<lparr>hpwork := snd (wq (hpwork w) i), trace := trace w @ [WorkQueue i req]\<rparr>)"

text \<open>
  \<open>sim_dma_transfer_2d\<close> fills the request structure \<open>dma_req[req_idx]\<close> and submits it.  The
  function is \<open>void\<close> and does not look at what \<open>work_queue\<close> returns.  Its two callers pass
  the indices 0 and 1.
\<close>

definition sim_dma_transfer_2d ::
  "work_queue_fn \<Rightarrow> dma_2d_config \<Rightarrow> addr \<Rightarrow> bool \<Rightarrow> nat \<Rightarrow> world \<Rightarrow> world" where
  "sim_dma_transfer_2d wq c dsp ntf req_idx w =
     (let ctx = g_ctx w;
          req = (dma_req ctx ! req_idx)\<lparr>cfg := c, disp := dsp, notify := ntf\<rparr>;
          w1 = w\<lparr>g_ctx := ctx\<lparr>dma_req := (dma_req ctx)[req_idx := req]\<rparr>\<rparr>
      in snd (work_queue wq req_idx req w1))"

text \<open>
  The two blocks of \<open>dualscreen_flush_cb\<close> that fill the local \<open>dma_cfg\<close>: the one for the
  left screen (taken when \<open>x1 < SCREEN_WIDTH\<close>) and the one for the right screen (taken when
  \<open>update_right\<close>).  \<open>y1 * ctx->stride_left\<close> multiplies an \<open>int32_t\<close> with a \<open>uint32_t\<close> and
  is therefore an unsigned 32-bit product; the other offsets are signed.
\<close>

definition left_dma_cfg :: "dualscreen_ctx \<Rightarrow> lv_area \<Rightarrow> addr \<Rightarrow> dma_2d_config" where
  "left_dma_cfg ctx area color_p =
     (let x1 = x1 area;
          y1 = y1 area;
          x2 = x2 area;
          y2 = y2 area;
          h = y2 - y1 + 1;
          src_stride = VIRTUAL_WIDTH * BYTES_PER_PIXEL;
          left_x1 = x1;
          left_x2 = (if x2 <s SCREEN_WIDTH then x2 else SCREEN_WIDTH - 1);
          left_w = left_x2 - left_x1 + 1
      in \<lparr>src = color_p + sint ((y1 * VIRTUAL_WIDTH + x1) * BYTES_PER_PIXEL),
          dst = mem_left ctx + uint (y1 * stride_left ctx) + sint (left_x1 * BYTES_PER_PIXEL),
          width = left_w,
          height = h,
          src_stride = src_stride,
          dst_stride = stride_left ctx,
          bpp = BYTES_PER_PIXEL\<rparr>)"

definition right_dma_cfg :: "dualscreen_ctx \<Rightarrow> lv_area \<Rightarrow> addr \<Rightarrow> dma_2d_config" where
  "right_dma_cfg ctx area color_p =
     (let x1 = x1 area;
          y1 = y1 area;
          x2 = x2 area;
          y2 = y2 area;
          h = y2 - y1 + 1;
          src_stride = VIRTUAL_WIDTH * BYTES_PER_PIXEL;
          right_x1 = (if SCREEN_WIDTH \<le>s x1 then x1 - SCREEN_WIDTH else 0);
          right_x2 = x2 - SCREEN_WIDTH;
          right_w = right_x2 - right_x1 + 1;
          src_x1 = (if SCREEN_WIDTH \<le>s x1 then x1 else SCREEN_WIDTH)
      in \<lparr>src = color_p + sint ((y1 * VIRTUAL_WIDTH + src_x1) * BYTES_PER_PIXEL),
          dst = mem_right ctx + uint (y1 * stride_right ctx) + sint (right_x1 * BYTES_PER_PIXEL),
          width = right_w,
          height = h,
          src_stride = src_stride,
          dst_stride = stride_right ctx,
          bpp = BYTES_PER_PIXEL\<rparr>)"

definition dualscreen_flush_cb ::
  "work_queue_fn \<Rightarrow> addr \<Rightarrow> lv_area \<Rightarrow> addr \<Rightarrow> world \<Rightarrow> world" where
  "dualscreen_flush_cb wq dsp area color_p w =
     (let update_right = (SCREEN_WIDTH \<le>s x2 area);
          w1 = (if x1 area <s SCREEN_WIDTH
                then sim_dma_transfer_2d wq (left_dma_cfg (g_ctx w) area color_p) dsp
                       (\<not> update_right) 0 w
                else w)
      in if update_right
         then sim_dma_transfer_2d wq (right_dma_cfg (g_ctx w1) area color_p) dsp True 1 w1
         else w1)"

section \<open>The execution facility\<close>

text \<open>
  The worker thread of the work queue takes a pending item off the queue and calls the
  worker function on it: for item \<open>i\<close> that is \<open>dma_worker(&g_ctx.dma_req[i])\<close>, which reads
  the request structure as it is at that moment.
\<close>

definition run_item :: "nat \<Rightarrow> world \<Rightarrow> world" where
  "run_item i w = dma_worker (dma_req (g_ctx w) ! i) (w\<lparr>hpwork := remove1 i (hpwork w)\<rparr>)"

text \<open>
  Running pending items one after the other in a given order.  A single worker with a
  first-in-first-out queue runs them in the order \<open>hpwork w\<close>; a facility that does not keep
  the submission order runs them in some other order.
\<close>

fun run_items :: "nat list \<Rightarrow> world \<Rightarrow> world" where
  "run_items [] w = w"
| "run_items (i # rest) w = run_items rest (run_item i w)"

text \<open>A work queue that accepts every submission and appends it to the pending items.\<close>

definition wq_accept :: work_queue_fn where
  "wq_accept q i = (0, q @ [i])"

text \<open>A work queue that rejects every submission (\<open>-ENOMEM\<close>) and queues nothing.\<close>

definition wq_reject :: work_queue_fn where
  "wq_reject q i = (- 12, q)"

section \<open>Reading the transfer jobs\<close>

text \<open>
  A dirty region as the rendering library supplies it:
  \<open>0 \<le> x1 \<le> x2 < 1920\<close> and \<open>0 \<le> y1 \<le> y2 < 720\<close>.
\<close>

definition valid_area :: "lv_area \<Rightarrow> bool" where
  "valid_area a \<longleftrightarrow>
     0 \<le> sint (x1 a) \<and> sint (x1 a) \<le> sint (x2 a) \<and> sint (x2 a) < 1920 \<and>
     0 \<le> sint (y1 a) \<and> sint (y1 a) \<le> sint (y2 a) \<and> sint (y2 a) < 720"

text \<open>
  The transfer job for the local rectangle \<open>(lx1, ly1)-(lx2, ly2)\<close> of a surface mapped at
  \<open>surf\<close> with row pitch \<open>stride\<close>, whose left edge is the canvas column \<open>origin\<close>: the
  source is the canvas pixel at the global position \<open>(origin + lx1, ly1)\<close>, the destination
  the surface pixel at the local position \<open>(lx1, ly1)\<close>, the width and height are those of
  the rectangle.  The row offset \<open>ly1 * stride\<close> of the destination is a \<open>uint32_t\<close>
  product, as in the code.
\<close>

definition rect_job ::
  "addr \<Rightarrow> addr \<Rightarrow> uint32_t \<Rightarrow> int \<Rightarrow> int \<times> int \<times> int \<times> int \<Rightarrow> dma_2d_config" where
  "rect_job color_p surf stride origin r =
     (case r of (lx1, ly1, lx2, ly2) \<Rightarrow>
        \<lparr>src = color_p + 4 * (ly1 * 1920 + (origin + lx1)),
         dst = surf + uint (word_of_int ly1 * stride) + 4 * lx1,
         width = word_of_int (lx2 - lx1 + 1),
         height = word_of_int (ly2 - ly1 + 1),
         src_stride = 7680,
         dst_stride = stride,
         bpp = 4\<rparr>)"

text \<open>The canvas pixels of a local rectangle of the surface that starts at column \<open>origin\<close>.\<close>

definition global_rect :: "int \<Rightarrow> int \<times> int \<times> int \<times> int \<Rightarrow> (int \<times> int) set" where
  "global_rect origin r =
     (case r of (lx1, ly1, lx2, ly2) \<Rightarrow> {origin + lx1 .. origin + lx2} \<times> {ly1 .. ly2})"

text \<open>
  The row copies the contract of the executor asks for: one \<open>memcpy\<close> per row \<open>r\<close> below the
  height, of \<open>width * bpp\<close> bytes (the \<open>uint32_t\<close> product \<open>line_bytes\<close>), from the source
  advanced by \<open>r\<close> source strides to the destination advanced by \<open>r\<close> destination strides.
\<close>

definition row_copies :: "dma_2d_config \<Rightarrow> event list" where
  "row_copies c =
     map (\<lambda>r. Memcpy (dst c + int r * uint (dst_stride c))
                      (src c + int r * uint (src_stride c))
                      (unat (width c * bpp c)))
         [0 ..< unat (height c)]"

text \<open>The row copies of the job that a \<open>work_queue\<close> call submits.\<close>

fun job_rows :: "event \<Rightarrow> event list" where
  "job_rows (WorkQueue i r) = row_copies (cfg r)"
| "job_rows (Memcpy d s n) = []"
| "job_rows (FlushReady dsp) = []"

section \<open>Framebuffer set-up\<close>

text \<open>
  The resources of the process: open file descriptors, memory mappings (address and
  length) and allocated heap blocks.  They are multisets, so that acquiring adds one
  occurrence and releasing takes one away.
\<close>

record sys =
  open_fds :: "int multiset"
  mappings :: "(addr \<times> nat) multiset"
  heap_blocks :: "addr multiset"

text \<open>
  What the operating system answers for one framebuffer device: the result of \<open>open\<close>, of
  the two \<open>ioctl\<close> calls, the plane information (\<open>pinfo.stride\<close>, \<open>pinfo.fblen\<close>) and the
  result of \<open>mmap\<close>.
\<close>

record fb_dev =
  open_ret :: int
  videoinfo_ret :: int
  planeinfo_ret :: int
  pinfo_stride :: uint32_t
  pinfo_fblen :: nat
  mmap_ret :: addr

text \<open>
  The answers of the environment during \<open>create_dualscreen_display\<close>: the devices by path,
  the results of the first and second \<open>malloc\<close>, and the result of \<open>lv_display_create\<close>.
\<close>

record os_env =
  dev :: "string \<Rightarrow> fb_dev"
  malloc_1st :: addr
  malloc_2nd :: addr
  lv_display_create_ret :: addr

definition os_open :: "int \<Rightarrow> sys \<Rightarrow> sys" where
  "os_open r s = (if 0 \<le> r then s\<lparr>open_fds := add_mset r (open_fds s)\<rparr> else s)"

definition os_close :: "int \<Rightarrow> sys \<Rightarrow> sys" where
  "os_close fd s = s\<lparr>open_fds := open_fds s - {#fd#}\<rparr>"

definition os_mmap :: "addr \<Rightarrow> nat \<Rightarrow> sys \<Rightarrow> sys" where
  "os_mmap r len s = (if r \<noteq> MAP_FAILED then s\<lparr>mappings := add_mset (r, len) (mappings s)\<rparr> else s)"

definition os_munmap :: "addr \<Rightarrow> nat \<Rightarrow> sys \<Rightarrow> sys" where
  "os_munmap a len s = s\<lparr>mappings := mappings s - {#(a, len)#}\<rparr>"

definition os_malloc :: "addr \<Rightarrow> sys \<Rightarrow> sys" where
  "os_malloc r s = (if r \<noteq> NULL then s\<lparr>heap_blocks := add_mset r (heap_blocks s)\<rparr> else s)"

definition os_free :: "addr \<Rightarrow> sys \<Rightarrow> sys" where
  "os_free p s = (if p \<noteq> NULL then s\<lparr>heap_blocks := heap_blocks s - {#p#}\<rparr> else s)"

text \<open>
  The four output parameters \<open>*fd\<close>, \<open>*mem\<close>, \<open>*stride\<close>, \<open>*fblen\<close> of \<open>init_framebuffer\<close>:
  the function gets their current contents and returns the contents afterwards.
\<close>

record fb_out =
  out_fd :: int
  out_mem :: addr
  out_stride :: uint32_t
  out_fblen :: nat

text \<open>\<open>init_framebuffer\<close>; the messages printed on the error paths are left out.\<close>

definition init_framebuffer :: "os_env \<Rightarrow> string \<Rightarrow> fb_out \<Rightarrow> sys \<Rightarrow> int \<times> fb_out \<times> sys" where
  "init_framebuffer env path out s =
     (let dv = dev env path;
          out1 = out\<lparr>out_fd := open_ret dv\<rparr>;
          s1 = os_open (open_ret dv) s
      in if out_fd out1 < 0 then (- 1, out1, s1)
         else if videoinfo_ret dv < 0 then (- 1, out1, os_close (out_fd out1) s1)
         else if planeinfo_ret dv < 0 then (- 1, out1, os_close (out_fd out1) s1)
         else
           (let out2 = out1\<lparr>out_mem := mmap_ret dv\<rparr>;
                s2 = os_mmap (mmap_ret dv) (pinfo_fblen dv) s1
            in if out_mem out2 = MAP_FAILED then (- 1, out2, os_close (out_fd out2) s2)
               else (0, out2\<lparr>out_stride := pinfo_stride dv, out_fblen := pinfo_fblen dv\<rparr>, s2)))"

text \<open>The members of the context that the two calls of \<open>init_framebuffer\<close> point to.\<close>

definition left_out :: "dualscreen_ctx \<Rightarrow> fb_out" where
  "left_out ctx = \<lparr>out_fd = fd_left ctx, out_mem = mem_left ctx,
                   out_stride = stride_left ctx, out_fblen = fblen_left ctx\<rparr>"

definition set_left :: "fb_out \<Rightarrow> dualscreen_ctx \<Rightarrow> dualscreen_ctx" where
  "set_left out ctx = ctx\<lparr>fd_left := out_fd out, mem_left := out_mem out,
                          stride_left := out_stride out, fblen_left := out_fblen out\<rparr>"

definition right_out :: "dualscreen_ctx \<Rightarrow> fb_out" where
  "right_out ctx = \<lparr>out_fd = fd_right ctx, out_mem = mem_right ctx,
                    out_stride = stride_right ctx, out_fblen = fblen_right ctx\<rparr>"

definition set_right :: "fb_out \<Rightarrow> dualscreen_ctx \<Rightarrow> dualscreen_ctx" where
  "set_right out ctx = ctx\<lparr>fd_right := out_fd out, mem_right := out_mem out,
                           stride_right := out_stride out, fblen_right := out_fblen out\<rparr>"

text \<open>
  \<open>create_dualscreen_display\<close>: the result is the display (\<open>NULL\<close> on failure), the context
  and the resources afterwards.  On success the display gets the context as driver data,
  the flush callback and the two buffers; these calls acquire nothing.
\<close>

definition create_dualscreen_display ::
  "os_env \<Rightarrow> dualscreen_ctx \<Rightarrow> sys \<Rightarrow> addr \<times> dualscreen_ctx \<times> sys" where
  "create_dualscreen_display env ctx s =
     (case init_framebuffer env ''/dev/fb0'' (left_out ctx) s of (r1, o1, s1) \<Rightarrow>
      let ctx1 = set_left o1 ctx in
      if r1 < 0 then (NULL, ctx1, s1)
      else
       (case init_framebuffer env ''/dev/fb1'' (right_out ctx1) s1 of (r2, o2, s2) \<Rightarrow>
        let ctx2 = set_right o2 ctx1 in
        if r2 < 0 then
          (NULL, ctx2,
           os_close (fd_left ctx2) (os_munmap (mem_left ctx2) (fblen_left ctx2) s2))
        else
         (let ctx3 = ctx2\<lparr>draw_buf := malloc_1st env\<rparr>;
              s3 = os_malloc (malloc_1st env) s2
          in if draw_buf ctx3 = NULL then
               (NULL, ctx3,
                os_close (fd_right ctx3) (os_close (fd_left ctx3)
                  (os_munmap (mem_right ctx3) (fblen_right ctx3)
                    (os_munmap (mem_left ctx3) (fblen_left ctx3) s3))))
             else
              (let ctx4 = ctx3\<lparr>draw_buf2 := malloc_2nd env\<rparr>;
                   s4 = os_malloc (malloc_2nd env) s3
               in if draw_buf2 ctx4 = NULL then
                    (NULL, ctx4,
                     os_close (fd_right ctx4) (os_close (fd_left ctx4)
                       (os_munmap (mem_right ctx4) (fblen_right ctx4)
                         (os_munmap (mem_left ctx4) (fblen_left ctx4)
                           (os_free (draw_buf ctx4) s4)))))
                  else
                   (let dsp = lv_display_create_ret env
                    in if dsp = NULL then
                         (NULL, ctx4,
                          os_close (fd_right ctx4) (os_close (fd_left ctx4)
                            (os_munmap (mem_right ctx4) (fblen_right ctx4)
                              (os_munmap (mem_left ctx4) (fblen_left ctx4)
                                (os_free (draw_buf2 ctx4) (os_free (draw_buf ctx4) s4))))))
                       else (dsp, ctx4, s4))))))"

text \<open>
  Some step of the acquisition fails: \<open>open\<close>, one of the two \<open>ioctl\<close> calls or \<open>mmap\<close> for
  one of the two devices, one of the two allocations, or the creation of the display.
\<close>

definition dev_fails :: "fb_dev \<Rightarrow> bool" where
  "dev_fails dv \<longleftrightarrow>
     open_ret dv < 0 \<or> videoinfo_ret dv < 0 \<or> planeinfo_ret dv < 0 \<or> mmap_ret dv = MAP_FAILED"

definition acquisition_fails :: "os_env \<Rightarrow> bool" where
  "acquisition_fails env \<longleftrightarrow>
     dev_fails (dev env ''/dev/fb0'') \<or> dev_fails (dev env ''/dev/fb1'') \<or>
     malloc_1st env = NULL \<or> malloc_2nd env = NULL \<or> lv_display_create_ret env = NULL"

section \<open>Example values\<close>

definition test_ctx :: dualscreen_ctx where
  "test_ctx =
     \<lparr>fd_left = 3, fd_right = 4, mem_left = 268435456, mem_right = 272629760,
      stride_left = 3840, stride_right = 3840, fblen_left = 2764800, fblen_right = 2764800,
      draw_buf = 536870912, draw_buf2 = 545259520,
      dma_req = replicate 2
        \<lparr>cfg = \<lparr>src = NULL, dst = NULL, width = 0, height = 0, src_stride = 0,
                 dst_stride = 0, bpp = 0\<rparr>,
         disp = NULL, notify = False\<rparr>\<rparr>"

definition test_world :: world where
  "test_world = \<lparr>g_ctx = test_ctx, hpwork = [], ram = (\<lambda>a. 0), trace = []\<rparr>"

definition test_dev :: fb_dev where
  "test_dev = \<lparr>open_ret = 3, videoinfo_ret = 0, planeinfo_ret = 0, pinfo_stride = 3840,
               pinfo_fblen = 2764800, mmap_ret = 268435456\<rparr>"

definition test_env :: os_env where
  "test_env =
     \<lparr>dev = (\<lambda>p. if p = ''/dev/fb0'' then test_dev
                  else test_dev\<lparr>open_ret := 4, mmap_ret := 272629760\<rparr>),
      malloc_1st = 536870912, malloc_2nd = 545259520, lv_display_create_ret = 1\<rparr>"

definition test_sys :: sys where
  "test_sys = \<lparr>open_fds = {#0, 1, 2#}, mappings = {#}, heap_blocks = {#}\<rparr>"

definition test_out :: fb_out where
  "test_out = \<lparr>out_fd = - 1, out_mem = NULL, out_stride = 0, out_fblen = 0\<rparr>"

section \<open>Auxiliary facts\<close>

lemma req_full: "(r::dma_request)\<lparr>cfg := c, disp := d, notify := n\<rparr> = \<lparr>cfg = c, disp = d, notify = n\<rparr>"
  by simp

lemma sless_960: "(x <s (960::32 word)) = (sint x < 960)"
  by (simp add: word_sless_alt)

lemma sle_960: "((960::32 word) \<le>s x) = (960 \<le> sint x)"
  by (simp add: word_sle_eq)

lemma sint_wi: "- 2147483648 \<le> k \<Longrightarrow> k < 2147483648 \<Longrightarrow> sint (word_of_int k :: 32 word) = k"
  by (simp add: int_word_sint)

lemma uint_wi: "0 \<le> k \<Longrightarrow> k < 4294967296 \<Longrightarrow> uint (word_of_int k :: 32 word) = k"
  by (simp add: uint_word_of_int)

lemma wi_sint: "word_of_int (sint (x::32 word)) = x"
  by simp

lemma sim_trace:
  "trace (sim_dma_transfer_2d wq c dsp ntf i w) = trace w @ [WorkQueue i \<lparr>cfg = c, disp = dsp, notify = ntf\<rparr>]"
  by (simp add: sim_dma_transfer_2d_def work_queue_def Let_def)

lemma sim_hpwork:
  "hpwork (sim_dma_transfer_2d wq c dsp ntf i w) = snd (wq (hpwork w) i)"
  by (simp add: sim_dma_transfer_2d_def work_queue_def Let_def)

lemma sim_ram:
  "ram (sim_dma_transfer_2d wq c dsp ntf i w) = ram w"
  by (simp add: sim_dma_transfer_2d_def work_queue_def Let_def)

lemma sim_ctx:
  "g_ctx (sim_dma_transfer_2d wq c dsp ntf i w) =
     (g_ctx w)\<lparr>dma_req := (dma_req (g_ctx w))[i := \<lparr>cfg = c, disp = dsp, notify = ntf\<rparr>]\<rparr>"
  by (simp add: sim_dma_transfer_2d_def work_queue_def Let_def req_full)

lemma right_cfg_upd: "right_dma_cfg (ctx\<lparr>dma_req := rs\<rparr>) area color_p = right_dma_cfg ctx area color_p"
  by (simp add: right_dma_cfg_def)

lemma flush_trace:
  "trace (dualscreen_flush_cb wq dsp area color_p w) =
     trace w
     @ (if sint (x1 area) < 960
        then [WorkQueue 0 \<lparr>cfg = left_dma_cfg (g_ctx w) area color_p, disp = dsp,
                           notify = (sint (x2 area) < 960)\<rparr>]
        else [])
     @ (if 960 \<le> sint (x2 area)
        then [WorkQueue 1 \<lparr>cfg = right_dma_cfg (g_ctx w) area color_p, disp = dsp,
                           notify = True\<rparr>]
        else [])"
  by (auto simp add: dualscreen_flush_cb_def Let_def sim_trace sim_ctx right_cfg_upd sless_960 sle_960)

lemma sint_sub: 
  fixes a b :: "32 word"
  assumes "- 2147483648 \<le> sint a - sint b" "sint a - sint b < 2147483648"
  shows "sint (a - b) = sint a - sint b"
proof -
  have "a - b = word_of_int (sint a - sint b)" by simp
  then show ?thesis using assms by (simp only: sint_wi)
qed

lemma src_off:
  fixes x y :: "32 word"
  assumes "0 \<le> sint x" "sint x < 1920" "0 \<le> sint y" "sint y < 720"
  shows "sint ((y * VIRTUAL_WIDTH + x) * BYTES_PER_PIXEL) = 4 * (sint y * 1920 + sint x)"
proof -
  have "(y * VIRTUAL_WIDTH + x) * BYTES_PER_PIXEL = word_of_int (4 * (sint y * 1920 + sint x))"
    by simp
  moreover have "- 2147483648 \<le> 4 * (sint y * 1920 + sint x)"
    and "4 * (sint y * 1920 + sint x) < 2147483648"
    using assms by simp_all
  ultimately show ?thesis by (simp only: sint_wi)
qed

lemma dst_off:
  fixes x :: "32 word"
  assumes "0 \<le> sint x" "sint x < 1920"
  shows "sint (x * BYTES_PER_PIXEL) = 4 * sint x"
proof -
  have "x * BYTES_PER_PIXEL = word_of_int (4 * sint x)"
    by simp
  then show ?thesis using assms by (simp only: sint_wi)
qed

lemma left_cfg_valid:
  assumes "valid_area a" "sint (x1 a) < 960"
  shows "left_dma_cfg ctx a cp =
           rect_job cp (mem_left ctx) (stride_left ctx) 0
             (sint (x1 a), sint (y1 a), min (sint (x2 a)) 959, sint (y2 a))"
proof -
  have s: "sint ((y1 a * VIRTUAL_WIDTH + x1 a) * BYTES_PER_PIXEL) = 4 * (sint (y1 a) * 1920 + sint (x1 a))"
    using assms by (intro src_off) (simp_all add: valid_area_def)
  have d: "sint (x1 a * BYTES_PER_PIXEL) = 4 * sint (x1 a)"
    using assms by (intro dst_off) (simp_all add: valid_area_def)
  have wd: "(if x2 a <s SCREEN_WIDTH then x2 a else SCREEN_WIDTH - 1) - x1 a + 1
            = word_of_int (min (sint (x2 a)) 959 - sint (x1 a) + 1)"
    by (simp add: sless_960 min_def)
  have ht: "y2 a - y1 a + 1 = word_of_int (sint (y2 a) - sint (y1 a) + 1)"
    by simp
  have yw: "word_of_int (sint (y1 a)) = y1 a"
    by simp
  show ?thesis
    unfolding left_dma_cfg_def rect_job_def Let_def prod.case s d wd ht yw
    by simp
qed

lemma right_cfg_valid:
  assumes "valid_area a" "960 \<le> sint (x2 a)"
  shows "right_dma_cfg ctx a cp =
           rect_job cp (mem_right ctx) (stride_right ctx) 960
             (max (sint (x1 a)) 960 - 960, sint (y1 a), sint (x2 a) - 960, sint (y2 a))"
proof -
  let ?sx = "if SCREEN_WIDTH \<le>s x1 a then x1 a else SCREEN_WIDTH"
  let ?rx = "if SCREEN_WIDTH \<le>s x1 a then x1 a - SCREEN_WIDTH else 0"
  have sx: "sint ?sx = max (sint (x1 a)) 960"
    by (simp add: sle_960 max_def)
  have "sint (x1 a - 960) = sint (x1 a) - sint (960 :: 32 word)" if "960 \<le> sint (x1 a)"
    using assms that by (intro sint_sub) (simp_all add: valid_area_def)
  then have rx: "sint ?rx = max (sint (x1 a)) 960 - 960"
    by (simp add: sle_960 max_def)
  have s: "sint ((y1 a * VIRTUAL_WIDTH + ?sx) * BYTES_PER_PIXEL) = 4 * (sint (y1 a) * 1920 + sint ?sx)"
    using assms by (intro src_off) (simp_all only: sx, simp_all add: valid_area_def)
  have d: "sint (?rx * BYTES_PER_PIXEL) = 4 * sint ?rx"
    using assms by (intro dst_off) (simp_all only: rx, simp_all add: valid_area_def)
  have "word_of_int (sint ?rx) = ?rx"
    by (rule wi_sint)
  then have rw: "?rx = word_of_int (max (sint (x1 a)) 960 - 960)"
    by (simp only: rx)
  have wd: "x2 a - SCREEN_WIDTH - ?rx + 1
            = word_of_int (sint (x2 a) - 960 - (max (sint (x1 a)) 960 - 960) + 1)"
    by (subst rw) simp
  have ht: "y2 a - y1 a + 1 = word_of_int (sint (y2 a) - sint (y1 a) + 1)"
    by simp
  have yw: "word_of_int (sint (y1 a)) = y1 a"
    by simp
  show ?thesis
    unfolding right_dma_cfg_def rect_job_def Let_def prod.case s d wd ht yw sx rx
    by simp
qed

lemma rect_job_width:
  "0 \<le> lx2 - lx1 + 1 \<Longrightarrow> lx2 - lx1 + 1 < 4294967296 \<Longrightarrow>
   uint (width (rect_job cp surf stride origin (lx1, ly1, lx2, ly2))) = lx2 - lx1 + 1"
  unfolding rect_job_def prod.case dma_2d_config.simps by (rule uint_wi)

lemma flush_hpwork:
  "hpwork (dualscreen_flush_cb wq dsp area color_p w) =
     (let q1 = (if sint (x1 area) < 960 then snd (wq (hpwork w) 0) else hpwork w)
      in if 960 \<le> sint (x2 area) then snd (wq q1 1) else q1)"
  by (simp add: dualscreen_flush_cb_def Let_def sim_hpwork sless_960 sle_960)

lemma flush_ram: "ram (dualscreen_flush_cb wq dsp area color_p w) = ram w"
  by (simp add: dualscreen_flush_cb_def Let_def sim_ram)

lemma flush_dma_req:
  "dma_req (g_ctx (dualscreen_flush_cb wq dsp area color_p w)) =
     (let rs1 = (if sint (x1 area) < 960
                 then (dma_req (g_ctx w))
                        [0 := \<lparr>cfg = left_dma_cfg (g_ctx w) area color_p, disp = dsp,
                               notify = (sint (x2 area) < 960)\<rparr>]
                 else dma_req (g_ctx w))
      in if 960 \<le> sint (x2 area)
         then rs1[1 := \<lparr>cfg = right_dma_cfg (g_ctx w) area color_p, disp = dsp, notify = True\<rparr>]
         else rs1)"
  by (auto simp add: dualscreen_flush_cb_def Let_def sim_ctx right_cfg_upd sless_960 sle_960)

lemma upt_0_Suc_map: "map f [0 ..< Suc n] = f 0 # map (\<lambda>r. f (Suc r)) [0 ..< n]"
proof -
  have "[0 ..< Suc n] = 0 # map Suc [0 ..< n]"
    by (simp add: map_Suc_upt upt_conv_Cons del: upt_Suc)
  then show ?thesis
    by (simp add: comp_def del: upt_Suc)
qed

lemma copy_rows_zero: "copy_rows c lb s d 0 w = w"
  by (simp add: copy_rows.simps)

lemma copy_rows_step:
  "h \<noteq> 0 \<Longrightarrow>
   copy_rows c lb s d h w =
     copy_rows c lb (s + uint (src_stride c)) (d + uint (dst_stride c)) (h - 1)
       (memcpy d s (unat lb) w)"
  by (subst copy_rows.simps) simp

lemma copy_rows_trace:
  "trace (copy_rows c lb s d h w) =
     trace w @ map (\<lambda>r. Memcpy (d + int r * uint (dst_stride c))
                               (s + int r * uint (src_stride c)) (unat lb))
                   [0 ..< unat h]"
proof (induction "unat h" arbitrary: h s d w)
  case 0
  then have "h = 0" by (simp add: unat_eq_0)
  then show ?case by (simp add: copy_rows_zero)
next
  case (Suc n)
  then have nz: "h \<noteq> 0" by auto
  have n: "n = unat (h - 1)"
    using Suc.hyps(2) nz by (simp add: unat_minus_one)
  have u: "unat h = Suc n"
    using Suc.hyps(2) by simp
  show ?case
    unfolding copy_rows_step [OF nz] Suc.hyps(1) [OF n] u upt_0_Suc_map n [symmetric]
    by (simp add: memcpy_def algebra_simps)
qed

lemma copy_rows_ctx: "g_ctx (copy_rows c lb s d h w) = g_ctx w"
proof (induction "unat h" arbitrary: h s d w)
  case 0
  then have "h = 0" by (simp add: unat_eq_0)
  then show ?case by (simp add: copy_rows_zero)
next
  case (Suc n)
  then have nz: "h \<noteq> 0" by auto
  have n: "n = unat (h - 1)"
    using Suc.hyps(2) nz by (simp add: unat_minus_one)
  show ?case
    unfolding copy_rows_step [OF nz] Suc.hyps(1) [OF n]
    by (simp add: memcpy_def)
qed

lemma copy_rows_hpwork: "hpwork (copy_rows c lb s d h w) = hpwork w"
proof (induction "unat h" arbitrary: h s d w)
  case 0
  then have "h = 0" by (simp add: unat_eq_0)
  then show ?case by (simp add: copy_rows_zero)
next
  case (Suc n)
  then have nz: "h \<noteq> 0" by auto
  have n: "n = unat (h - 1)"
    using Suc.hyps(2) nz by (simp add: unat_minus_one)
  show ?case
    unfolding copy_rows_step [OF nz] Suc.hyps(1) [OF n]
    by (simp add: memcpy_def)
qed

lemma copy_rows_ram_outside:
  "a < d \<or> d + (uint h - 1) * uint (dst_stride c) + uint lb \<le> a \<Longrightarrow>
   ram (copy_rows c lb s d h w) a = ram w a"
proof (induction "unat h" arbitrary: h s d w)
  case 0
  then have "h = 0" by (simp add: unat_eq_0)
  then show ?case by (simp add: copy_rows_zero)
next
  case (Suc n)
  then have nz: "h \<noteq> 0" by auto
  have n: "n = unat (h - 1)"
    using Suc.hyps(2) nz by (simp add: unat_minus_one)
  have "int (unat h) = int (Suc n)"
    using Suc.hyps(2) by (simp only:)
  then have u: "uint h = int n + 1"
    by simp
  have n': "uint (h - 1) = int n"
    using n by simp
  have st: "0 \<le> uint (dst_stride c)" by simp
  have nst: "0 \<le> int n * uint (dst_stride c)" by simp
  from Suc.prems have far: "a < d \<or> d + int n * uint (dst_stride c) + uint lb \<le> a"
    by (simp add: u)
  then have here: "a < d \<or> d + uint lb \<le> a"
    using nst by linarith
  have "int n * uint (dst_stride c) = uint (dst_stride c) + (int n - 1) * uint (dst_stride c)"
    by (simp add: algebra_simps)
  with far st
  have next_row: "a < d + uint (dst_stride c)
        \<or> d + uint (dst_stride c) + (uint (h - 1) - 1) * uint (dst_stride c) + uint lb \<le> a"
    unfolding n' by linarith
  have "ram (copy_rows c lb s d h w) a = ram (memcpy d s (unat lb) w) a"
    unfolding copy_rows_step [OF nz] by (rule Suc.hyps(1) [OF n next_row])
  also have "\<dots> = ram w a"
    using here by (auto simp add: memcpy_def)
  finally show ?case .
qed

lemma dma_worker_trace:
  "trace (dma_worker req w) =
     trace w @ row_copies (cfg req)
     @ (if notify req \<and> disp req \<noteq> NULL then [FlushReady (disp req)] else [])"
  by (simp add: dma_worker_def Let_def lv_display_flush_ready_def copy_rows_trace row_copies_def)

lemma dma_worker_ctx: "g_ctx (dma_worker req w) = g_ctx w"
  by (simp add: dma_worker_def Let_def lv_display_flush_ready_def copy_rows_ctx)

lemma dma_worker_hpwork: "hpwork (dma_worker req w) = hpwork w"
  by (simp add: dma_worker_def Let_def lv_display_flush_ready_def copy_rows_hpwork)

lemma dma_worker_ram_outside:
  "a < dst (cfg req)
   \<or> dst (cfg req) + (uint (height (cfg req)) - 1) * uint (dst_stride (cfg req))
       + uint (width (cfg req) * bpp (cfg req)) \<le> a \<Longrightarrow>
   ram (dma_worker req w) a = ram w a"
  by (simp add: dma_worker_def Let_def lv_display_flush_ready_def copy_rows_ram_outside)

lemma line_bytes_le:
  "uint (wd * b) \<le> uint wd * uint b" for wd b :: "32 word"
proof -
  have "uint (wd * b) = (uint wd * uint b) mod 2 ^ 32"
    by (simp add: uint_word_ariths)
  also have "\<dots> \<le> uint wd * uint b"
    by (rule zmod_le_nonneg_dividend) simp
  finally show ?thesis .
qed

lemma copy_rows_ram_content:
  assumes "r < unat h" and "0 \<le> i" and "i < uint lb" and "uint lb \<le> uint (dst_stride c)"
    and "s + int r * uint (src_stride c) + i < d
         \<or> d + (uint h - 1) * uint (dst_stride c) + uint lb \<le> s + int r * uint (src_stride c) + i"
  shows "ram (copy_rows c lb s d h w) (d + int r * uint (dst_stride c) + i)
           = ram w (s + int r * uint (src_stride c) + i)"
  using assms
proof (induction "unat h" arbitrary: h s d w r)
  case 0
  then show ?case by simp
next
  case (Suc n)
  then have nz: "h \<noteq> 0" by auto
  have n: "n = unat (h - 1)"
    using Suc.hyps(2) nz by (simp add: unat_minus_one)
  have "int (unat h) = int (Suc n)"
    using Suc.hyps(2) by (simp only:)
  then have u: "uint h = int n + 1"
    by simp
  have n': "uint (h - 1) = int n"
    using n by simp
  have nst: "0 \<le> int n * uint (dst_stride c)" by simp
  let ?ds = "uint (dst_stride c)" and ?ss = "uint (src_stride c)"
  let ?w1 = "memcpy d s (unat lb) w"
  from Suc.prems(5)
  have far: "s + int r * ?ss + i < d \<or> d + int n * ?ds + uint lb \<le> s + int r * ?ss + i"
    by (simp add: u)
  then have src_here: "s + int r * ?ss + i < d \<or> d + uint lb \<le> s + int r * ?ss + i"
    using nst by linarith
  have src_kept: "ram ?w1 (s + int r * ?ss + i) = ram w (s + int r * ?ss + i)"
    using src_here by (auto simp add: memcpy_def)
  show ?case
  proof (cases r)
    case 0
    have out: "d + i < d + ?ds
               \<or> d + ?ds + (uint (h - 1) - 1) * ?ds + uint lb \<le> d + i"
      using Suc.prems(3,4) by linarith
    have "ram (copy_rows c lb s d h w) (d + i) = ram ?w1 (d + i)"
      unfolding copy_rows_step [OF nz] by (rule copy_rows_ram_outside [OF out])
    also have "\<dots> = ram w (s + i)"
      using Suc.prems(2,3) by (simp add: memcpy_def)
    finally show ?thesis
      using 0 by simp
  next
    case (Suc r')
    have r': "r' < unat (h - 1)"
      using Suc.prems(1) Suc Suc.hyps(2) n by simp
    have sa: "s + int r * ?ss + i = s + ?ss + int r' * ?ss + i"
      and da: "d + int r * ?ds + i = d + ?ds + int r' * ?ds + i"
      using Suc by (simp_all add: algebra_simps)
    have "int n * ?ds = ?ds + (int n - 1) * ?ds"
      by (simp add: algebra_simps)
    with far uint_nonnegative [of "dst_stride c"]
    have src_next: "s + ?ss + int r' * ?ss + i < d + ?ds
           \<or> d + ?ds + (uint (h - 1) - 1) * ?ds + uint lb \<le> s + ?ss + int r' * ?ss + i"
      unfolding n' sa by linarith
    have "ram (copy_rows c lb s d h w) (d + int r * ?ds + i)
            = ram (copy_rows c lb (s + ?ss) (d + ?ds) (h - 1) ?w1) (d + ?ds + int r' * ?ds + i)"
      unfolding copy_rows_step [OF nz] da ..
    also have "\<dots> = ram ?w1 (s + ?ss + int r' * ?ss + i)"
      by (rule Suc.hyps(1) [OF n r' Suc.prems(2,3,4) src_next])
    also have "\<dots> = ram w (s + int r * ?ss + i)"
      using src_kept unfolding sa .
    finally show ?thesis .
  qed
qed

lemma dma_worker_ram_content:
  assumes "r < unat (height (cfg req))" and "0 \<le> i"
    and "i < uint (width (cfg req) * bpp (cfg req))"
    and "uint (width (cfg req) * bpp (cfg req)) \<le> uint (dst_stride (cfg req))"
    and "src (cfg req) + int r * uint (src_stride (cfg req)) + i < dst (cfg req)
         \<or> dst (cfg req) + (uint (height (cfg req)) - 1) * uint (dst_stride (cfg req))
             + uint (width (cfg req) * bpp (cfg req))
           \<le> src (cfg req) + int r * uint (src_stride (cfg req)) + i"
  shows "ram (dma_worker req w) (dst (cfg req) + int r * uint (dst_stride (cfg req)) + i)
           = ram w (src (cfg req) + int r * uint (src_stride (cfg req)) + i)"
  using copy_rows_ram_content [OF assms, of w]
  by (simp add: dma_worker_def Let_def lv_display_flush_ready_def)

lemma run_item_trace:
  "trace (run_item i w) =
     trace w @ row_copies (cfg (dma_req (g_ctx w) ! i))
     @ (if notify (dma_req (g_ctx w) ! i) \<and> disp (dma_req (g_ctx w) ! i) \<noteq> NULL
        then [FlushReady (disp (dma_req (g_ctx w) ! i))] else [])"
  by (simp add: run_item_def dma_worker_trace)

lemma run_item_ctx: "g_ctx (run_item i w) = g_ctx w"
  by (simp add: run_item_def dma_worker_ctx)

lemma run_item_hpwork: "hpwork (run_item i w) = remove1 i (hpwork w)"
  by (simp add: run_item_def dma_worker_hpwork)

lemma row_copies_no_flush_ready: "filter is_FlushReady (row_copies c) = []"
  by (simp add: row_copies_def filter_empty_conv)

lemma init_framebuffer_cases:
  "init_framebuffer env path out s =
     (if dev_fails (dev env path)
      then (- 1,
            if open_ret (dev env path) < 0 \<or> videoinfo_ret (dev env path) < 0
               \<or> planeinfo_ret (dev env path) < 0
            then out\<lparr>out_fd := open_ret (dev env path)\<rparr>
            else out\<lparr>out_fd := open_ret (dev env path), out_mem := MAP_FAILED\<rparr>,
            s)
      else (0,
            \<lparr>out_fd = open_ret (dev env path), out_mem = mmap_ret (dev env path),
             out_stride = pinfo_stride (dev env path), out_fblen = pinfo_fblen (dev env path)\<rparr>,
            s\<lparr>open_fds := add_mset (open_ret (dev env path)) (open_fds s),
              mappings := add_mset (mmap_ret (dev env path), pinfo_fblen (dev env path)) (mappings s)\<rparr>))"
  by (auto simp add: init_framebuffer_def dev_fails_def Let_def os_open_def os_close_def os_mmap_def)

section \<open>Where the completion notification is attached\<close>

text \<open>
  Claim C6.  For every dirty region, every display, every work queue and every state: the
  flush callback submits the left-screen job (in slot 0) exactly when \<open>x1 < 960\<close> and
  after it the right-screen job (in slot 1) exactly when \<open>x2 \<ge> 960\<close>.  The left-screen
  job carries \<open>notify = true\<close> iff \<open>x2 < 960\<close>, that is iff no right-screen job is
  submitted; the right-screen job always carries \<open>notify = true\<close>.  So the notification
  is attached to the transfer that is submitted last.
\<close>

theorem notify_on_last_submitted:
  "trace (dualscreen_flush_cb wq dsp area color_p w) =
     trace w
     @ (if sint (x1 area) < 960
        then [WorkQueue 0 \<lparr>cfg = left_dma_cfg (g_ctx w) area color_p, disp = dsp,
                           notify = (sint (x2 area) < 960)\<rparr>]
        else [])
     @ (if 960 \<le> sint (x2 area)
        then [WorkQueue 1 \<lparr>cfg = right_dma_cfg (g_ctx w) area color_p, disp = dsp,
                           notify = True\<rparr>]
        else [])"
proof (cases "sint (x1 area) < 960")
  case left: True
  show ?thesis
  proof (cases "960 \<le> sint (x2 area)")
    case True
    with left show ?thesis
      by (simp add: dualscreen_flush_cb_def Let_def sim_trace sim_ctx right_cfg_upd
          sless_960 sle_960)
  next
    case False
    with left show ?thesis
      by (simp add: dualscreen_flush_cb_def Let_def sim_trace sless_960 sle_960)
  qed
next
  case no_left: False
  show ?thesis
  proof (cases "960 \<le> sint (x2 area)")
    case True
    with no_left show ?thesis
      by (simp add: dualscreen_flush_cb_def Let_def sim_trace sless_960 sle_960)
  next
    case False
    with no_left show ?thesis
      by (simp add: dualscreen_flush_cb_def Let_def sless_960 sle_960)
  qed
qed

theorem notify_on_last_submitted_witness:
  "map (\<lambda>e. case e of WorkQueue i r \<Rightarrow> (i, notify r))
     (trace (dualscreen_flush_cb wq_accept 1 \<lparr>x1 = 900, y1 = 10, x2 = 1020, y2 = 20\<rparr> 536870912 test_world))
   = [(0, False), (1, True)]
   \<and> map (\<lambda>e. case e of WorkQueue i r \<Rightarrow> (i, notify r))
     (trace (dualscreen_flush_cb wq_accept 1 \<lparr>x1 = 900, y1 = 10, x2 = 950, y2 = 20\<rparr> 536870912 test_world))
   = [(0, True)]"
  using notify_on_last_submitted [of wq_accept 1 "\<lparr>x1 = 900, y1 = 10, x2 = 1020, y2 = 20\<rparr>" 536870912 test_world]
    notify_on_last_submitted [of wq_accept 1 "\<lparr>x1 = 900, y1 = 10, x2 = 950, y2 = 20\<rparr>" 536870912 test_world]
  by (simp add: test_world_def)

section \<open>The request slots\<close>

text \<open>
  Claim C9.  With the two request structures of the context in place, every left-screen
  job is submitted in slot \<open>dma_req[0]\<close> and every right-screen job in slot
  \<open>dma_req[1]\<close>; when the flush callback returns, slot 0 holds the left-screen request if
  one was submitted (and its old contents otherwise) and slot 1 the right-screen request if
  one was submitted: the second submission has not overwritten the first.
\<close>

theorem jobs_in_distinct_slots:
  assumes "length (dma_req (g_ctx w)) = 2"
  shows "trace (dualscreen_flush_cb wq dsp area color_p w) =
           trace w
           @ (if sint (x1 area) < 960
              then [WorkQueue 0 \<lparr>cfg = left_dma_cfg (g_ctx w) area color_p, disp = dsp,
                                 notify = (sint (x2 area) < 960)\<rparr>]
              else [])
           @ (if 960 \<le> sint (x2 area)
              then [WorkQueue 1 \<lparr>cfg = right_dma_cfg (g_ctx w) area color_p, disp = dsp,
                                 notify = True\<rparr>]
              else [])
         \<and> dma_req (g_ctx (dualscreen_flush_cb wq dsp area color_p w)) =
           [if sint (x1 area) < 960
            then \<lparr>cfg = left_dma_cfg (g_ctx w) area color_p, disp = dsp,
                  notify = (sint (x2 area) < 960)\<rparr>
            else dma_req (g_ctx w) ! 0,
            if 960 \<le> sint (x2 area)
            then \<lparr>cfg = right_dma_cfg (g_ctx w) area color_p, disp = dsp, notify = True\<rparr>
            else dma_req (g_ctx w) ! 1]"
proof -
  obtain r0 r1 where rs: "dma_req (g_ctx w) = [r0, r1]"
    using assms by (auto simp: length_Suc_conv numeral_2_eq_2)
  show ?thesis
    by (simp add: flush_trace flush_dma_req rs Let_def)
qed

theorem jobs_in_distinct_slots_witness:
  "length (dma_req (g_ctx test_world)) = 2
   \<and> map (\<lambda>r. (uint (width (cfg r)), notify r))
        (dma_req (g_ctx (dualscreen_flush_cb wq_accept 1
           \<lparr>x1 = 900, y1 = 10, x2 = 1020, y2 = 20\<rparr> 536870912 test_world)))
     = [(60, False), (61, True)]"
proof -
  have len: "length (dma_req (g_ctx test_world)) = 2"
    by (simp add: test_world_def test_ctx_def)
  show ?thesis
    using jobs_in_distinct_slots [OF len, of wq_accept 1 "\<lparr>x1 = 900, y1 = 10, x2 = 1020, y2 = 20\<rparr>" 536870912]
    by (simp add: len left_dma_cfg_def right_dma_cfg_def sless_960 sle_960)
qed

section \<open>Splitting a dirty region\<close>

text \<open>
  Claim C1.  For every dirty region with valid bounds that straddles the boundary
  (\<open>x1 < 960 \<le> x2\<close>) the flush callback submits exactly two transfer jobs: the job for
  the local rectangle \<open>(x1, y1)-(959, y2)\<close> of the left screen, then the job for the local
  rectangle \<open>(0, y1)-(x2 - 960, y2)\<close> of the right screen.  Their widths sum to
  \<open>x2 - x1 + 1\<close>, and the two rectangles, translated back to canvas coordinates, are
  disjoint and together make up the dirty rectangle.  The witness is the region
  \<open>(900, 10)-(1020, 20)\<close>: left \<open>(900, 10)-(959, 20)\<close>, right \<open>(0, 10)-(60, 20)\<close>.
\<close>

theorem straddling_split:
  assumes "valid_area a" and "sint (x1 a) < 960" and "960 \<le> sint (x2 a)"
  shows "trace (dualscreen_flush_cb wq dsp a color_p w) =
           trace w @
           [WorkQueue 0
              \<lparr>cfg = rect_job color_p (mem_left (g_ctx w)) (stride_left (g_ctx w)) 0
                       (sint (x1 a), sint (y1 a), 959, sint (y2 a)),
               disp = dsp, notify = False\<rparr>,
            WorkQueue 1
              \<lparr>cfg = rect_job color_p (mem_right (g_ctx w)) (stride_right (g_ctx w)) 960
                       (0, sint (y1 a), sint (x2 a) - 960, sint (y2 a)),
               disp = dsp, notify = True\<rparr>]
       \<and> uint (width (rect_job color_p (mem_left (g_ctx w)) (stride_left (g_ctx w)) 0
                         (sint (x1 a), sint (y1 a), 959, sint (y2 a))))
         + uint (width (rect_job color_p (mem_right (g_ctx w)) (stride_right (g_ctx w)) 960
                         (0, sint (y1 a), sint (x2 a) - 960, sint (y2 a))))
         = sint (x2 a) - sint (x1 a) + 1
       \<and> global_rect 0 (sint (x1 a), sint (y1 a), 959, sint (y2 a))
         \<union> global_rect 960 (0, sint (y1 a), sint (x2 a) - 960, sint (y2 a))
         = {sint (x1 a) .. sint (x2 a)} \<times> {sint (y1 a) .. sint (y2 a)}
       \<and> global_rect 0 (sint (x1 a), sint (y1 a), 959, sint (y2 a))
         \<inter> global_rect 960 (0, sint (y1 a), sint (x2 a) - 960, sint (y2 a))
         = {}"
proof (intro conjI)
  show "trace (dualscreen_flush_cb wq dsp a color_p w) =
           trace w @
           [WorkQueue 0
              \<lparr>cfg = rect_job color_p (mem_left (g_ctx w)) (stride_left (g_ctx w)) 0
                       (sint (x1 a), sint (y1 a), 959, sint (y2 a)),
               disp = dsp, notify = False\<rparr>,
            WorkQueue 1
              \<lparr>cfg = rect_job color_p (mem_right (g_ctx w)) (stride_right (g_ctx w)) 960
                       (0, sint (y1 a), sint (x2 a) - 960, sint (y2 a)),
               disp = dsp, notify = True\<rparr>]"
    using assms(2,3)
    by (simp add: flush_trace left_cfg_valid [OF assms(1,2)] right_cfg_valid [OF assms(1,3)]
          min_def max_def)
next
  have "uint (width (rect_job color_p (mem_left (g_ctx w)) (stride_left (g_ctx w)) 0
                         (sint (x1 a), sint (y1 a), 959, sint (y2 a)))) = 959 - sint (x1 a) + 1"
    using assms by (intro rect_job_width) (simp_all add: valid_area_def)
  moreover have "uint (width (rect_job color_p (mem_right (g_ctx w)) (stride_right (g_ctx w)) 960
                         (0, sint (y1 a), sint (x2 a) - 960, sint (y2 a)))) = sint (x2 a) - 960 - 0 + 1"
    using assms by (intro rect_job_width) (simp_all add: valid_area_def)
  ultimately show "uint (width (rect_job color_p (mem_left (g_ctx w)) (stride_left (g_ctx w)) 0
                         (sint (x1 a), sint (y1 a), 959, sint (y2 a))))
         + uint (width (rect_job color_p (mem_right (g_ctx w)) (stride_right (g_ctx w)) 960
                         (0, sint (y1 a), sint (x2 a) - 960, sint (y2 a))))
         = sint (x2 a) - sint (x1 a) + 1"
    by simp
next
  show "global_rect 0 (sint (x1 a), sint (y1 a), 959, sint (y2 a))
         \<union> global_rect 960 (0, sint (y1 a), sint (x2 a) - 960, sint (y2 a))
         = {sint (x1 a) .. sint (x2 a)} \<times> {sint (y1 a) .. sint (y2 a)}"
    using assms(2,3) by (auto simp add: global_rect_def)
next
  show "global_rect 0 (sint (x1 a), sint (y1 a), 959, sint (y2 a))
         \<inter> global_rect 960 (0, sint (y1 a), sint (x2 a) - 960, sint (y2 a))
         = {}"
    by (auto simp add: global_rect_def)
qed

theorem straddling_split_witness:
  "valid_area \<lparr>x1 = 900, y1 = 10, x2 = 1020, y2 = 20\<rparr>
   \<and> trace (dualscreen_flush_cb wq_accept 1 \<lparr>x1 = 900, y1 = 10, x2 = 1020, y2 = 20\<rparr> 536870912 test_world)
       = [WorkQueue 0 \<lparr>cfg = rect_job 536870912 268435456 3840 0 (900, 10, 959, 20),
                       disp = 1, notify = False\<rparr>,
          WorkQueue 1 \<lparr>cfg = rect_job 536870912 272629760 3840 960 (0, 10, 60, 20),
                       disp = 1, notify = True\<rparr>]
   \<and> uint (width (rect_job 536870912 268435456 3840 0 (900, 10, 959, 20))) = 60
   \<and> uint (width (rect_job 536870912 272629760 3840 960 (0, 10, 60, 20))) = 61"
proof -
  have v: "valid_area \<lparr>x1 = 900, y1 = 10, x2 = 1020, y2 = 20\<rparr>"
    by (simp add: valid_area_def)
  have l: "sint (x1 \<lparr>x1 = 900, y1 = 10, x2 = 1020, y2 = (20::32 word)\<rparr>) < 960"
    and r: "960 \<le> sint (x2 \<lparr>x1 = 900, y1 = 10, x2 = 1020, y2 = (20::32 word)\<rparr>)"
    by simp_all
  have wl: "uint (width (rect_job 536870912 268435456 3840 0 (900, 10, 959, 20))) = 60"
    and wr: "uint (width (rect_job 536870912 272629760 3840 960 (0, 10, 60, 20))) = 61"
    by (simp_all add: rect_job_def)
  show ?thesis
    using v wl wr straddling_split [OF v l r, of wq_accept 1 536870912 test_world]
    by (simp add: test_world_def test_ctx_def)
qed

text \<open>
  Claim C2.  For every dirty region with valid bounds that lies on one surface the flush
  callback submits exactly one transfer job: if \<open>x2 < 960\<close> the job for the rectangle with
  unchanged coordinates on the left screen (slot 0); if \<open>x1 \<ge> 960\<close> the job for the
  rectangle with both x-coordinates shifted by \<open>-960\<close> on the right screen (slot 1).
\<close>

theorem single_surface_job:
  assumes "valid_area a"
  shows "(sint (x2 a) < 960 \<longrightarrow>
            trace (dualscreen_flush_cb wq dsp a color_p w) =
              trace w @
              [WorkQueue 0
                 \<lparr>cfg = rect_job color_p (mem_left (g_ctx w)) (stride_left (g_ctx w)) 0
                          (sint (x1 a), sint (y1 a), sint (x2 a), sint (y2 a)),
                  disp = dsp, notify = True\<rparr>])
       \<and> (960 \<le> sint (x1 a) \<longrightarrow>
            trace (dualscreen_flush_cb wq dsp a color_p w) =
              trace w @
              [WorkQueue 1
                 \<lparr>cfg = rect_job color_p (mem_right (g_ctx w)) (stride_right (g_ctx w)) 960
                          (sint (x1 a) - 960, sint (y1 a), sint (x2 a) - 960, sint (y2 a)),
                  disp = dsp, notify = True\<rparr>])"
proof (intro conjI impI)
  assume l: "sint (x2 a) < 960"
  then have x: "sint (x1 a) < 960"
    using assms by (simp add: valid_area_def)
  show "trace (dualscreen_flush_cb wq dsp a color_p w) =
          trace w @
          [WorkQueue 0
             \<lparr>cfg = rect_job color_p (mem_left (g_ctx w)) (stride_left (g_ctx w)) 0
                      (sint (x1 a), sint (y1 a), sint (x2 a), sint (y2 a)),
              disp = dsp, notify = True\<rparr>]"
    using l x by (simp add: flush_trace left_cfg_valid [OF assms x] min_def)
next
  assume r: "960 \<le> sint (x1 a)"
  then have x: "960 \<le> sint (x2 a)"
    using assms by (simp add: valid_area_def)
  show "trace (dualscreen_flush_cb wq dsp a color_p w) =
          trace w @
          [WorkQueue 1
             \<lparr>cfg = rect_job color_p (mem_right (g_ctx w)) (stride_right (g_ctx w)) 960
                      (sint (x1 a) - 960, sint (y1 a), sint (x2 a) - 960, sint (y2 a)),
              disp = dsp, notify = True\<rparr>]"
    using r x by (simp add: flush_trace right_cfg_valid [OF assms x] max_def)
qed

theorem single_surface_job_witness:
  "valid_area \<lparr>x1 = 100, y1 = 10, x2 = 200, y2 = 20\<rparr>
   \<and> valid_area \<lparr>x1 = 1000, y1 = 10, x2 = 1200, y2 = 20\<rparr>
   \<and> trace (dualscreen_flush_cb wq_accept 1 \<lparr>x1 = 100, y1 = 10, x2 = 200, y2 = 20\<rparr> 536870912 test_world)
       = [WorkQueue 0 \<lparr>cfg = rect_job 536870912 268435456 3840 0 (100, 10, 200, 20),
                       disp = 1, notify = True\<rparr>]
   \<and> trace (dualscreen_flush_cb wq_accept 1 \<lparr>x1 = 1000, y1 = 10, x2 = 1200, y2 = 20\<rparr> 536870912 test_world)
       = [WorkQueue 1 \<lparr>cfg = rect_job 536870912 272629760 3840 960 (40, 10, 240, 20),
                       disp = 1, notify = True\<rparr>]"
proof -
  have v1: "valid_area \<lparr>x1 = 100, y1 = 10, x2 = 200, y2 = 20\<rparr>"
    and v2: "valid_area \<lparr>x1 = 1000, y1 = 10, x2 = 1200, y2 = 20\<rparr>"
    by (simp_all add: valid_area_def)
  show ?thesis
    using v1 v2 single_surface_job [OF v1, of wq_accept 1 536870912 test_world]
      single_surface_job [OF v2, of wq_accept 1 536870912 test_world]
    by (simp add: test_world_def test_ctx_def)
qed

section \<open>The row copies of the executor\<close>

text \<open>
  Claim C3.  For every transfer job \<open>dma_worker\<close> performs exactly \<open>height\<close> calls of
  \<open>memcpy\<close>, each of \<open>line_bytes = width * bpp\<close> bytes (the \<open>uint32_t\<close> product the code
  computes), the call for row \<open>r\<close> from \<open>src + r * src_stride\<close> to \<open>dst + r * dst_stride\<close>,
  followed by the completion call if the request asks for it.  No byte outside
  \<open>[dst, dst + (height - 1) * dst_stride + line_bytes)\<close> changes, and so none outside the
  interval with the unbounded product \<open>width * bpp\<close> either.  The bytes are copied: when the
  rows do not overlap in the destination (\<open>line_bytes \<le> dst_stride\<close>), byte \<open>i\<close> of row \<open>r\<close>
  of the destination holds afterwards what byte \<open>i\<close> of row \<open>r\<close> of the source held before,
  for every source byte that lies outside the destination interval.  The witness is the
  job with width 100, height 50, 4 bytes per pixel and strides 4096 and 3840: 50 rows of
  400 bytes, and the last byte of the last row changes from 80 to the source's 240.
\<close>

theorem dma_worker_row_copies:
  "trace (dma_worker req w) =
     trace w @ row_copies (cfg req)
     @ (if notify req \<and> disp req \<noteq> NULL then [FlushReady (disp req)] else [])
   \<and> length (row_copies (cfg req)) = unat (height (cfg req))
   \<and> (\<forall>a. a < dst (cfg req)
          \<or> dst (cfg req) + (uint (height (cfg req)) - 1) * uint (dst_stride (cfg req))
              + uint (width (cfg req) * bpp (cfg req)) \<le> a
          \<longrightarrow> ram (dma_worker req w) a = ram w a)
   \<and> (\<forall>a. a < dst (cfg req)
          \<or> dst (cfg req) + (uint (height (cfg req)) - 1) * uint (dst_stride (cfg req))
              + uint (width (cfg req)) * uint (bpp (cfg req)) \<le> a
          \<longrightarrow> ram (dma_worker req w) a = ram w a)
   \<and> (\<forall>r i. r < unat (height (cfg req)) \<and> 0 \<le> i
          \<and> i < uint (width (cfg req) * bpp (cfg req))
          \<and> uint (width (cfg req) * bpp (cfg req)) \<le> uint (dst_stride (cfg req))
          \<and> (src (cfg req) + int r * uint (src_stride (cfg req)) + i < dst (cfg req)
             \<or> dst (cfg req) + (uint (height (cfg req)) - 1) * uint (dst_stride (cfg req))
                 + uint (width (cfg req) * bpp (cfg req))
               \<le> src (cfg req) + int r * uint (src_stride (cfg req)) + i)
          \<longrightarrow> ram (dma_worker req w) (dst (cfg req) + int r * uint (dst_stride (cfg req)) + i)
              = ram w (src (cfg req) + int r * uint (src_stride (cfg req)) + i))"
proof (intro conjI allI impI)
  show "trace (dma_worker req w) =
     trace w @ row_copies (cfg req)
     @ (if notify req \<and> disp req \<noteq> NULL then [FlushReady (disp req)] else [])"
    by (rule dma_worker_trace)
  show "length (row_copies (cfg req)) = unat (height (cfg req))"
    by (simp add: row_copies_def)
next
  fix a
  assume "a < dst (cfg req)
          \<or> dst (cfg req) + (uint (height (cfg req)) - 1) * uint (dst_stride (cfg req))
              + uint (width (cfg req) * bpp (cfg req)) \<le> a"
  then show "ram (dma_worker req w) a = ram w a"
    by (rule dma_worker_ram_outside)
next
  fix a
  assume "a < dst (cfg req)
          \<or> dst (cfg req) + (uint (height (cfg req)) - 1) * uint (dst_stride (cfg req))
              + uint (width (cfg req)) * uint (bpp (cfg req)) \<le> a"
  then have "a < dst (cfg req)
          \<or> dst (cfg req) + (uint (height (cfg req)) - 1) * uint (dst_stride (cfg req))
              + uint (width (cfg req) * bpp (cfg req)) \<le> a"
    using line_bytes_le [of "width (cfg req)" "bpp (cfg req)"] by linarith
  then show "ram (dma_worker req w) a = ram w a"
    by (rule dma_worker_ram_outside)
next
  fix r i
  assume "r < unat (height (cfg req)) \<and> 0 \<le> i
          \<and> i < uint (width (cfg req) * bpp (cfg req))
          \<and> uint (width (cfg req) * bpp (cfg req)) \<le> uint (dst_stride (cfg req))
          \<and> (src (cfg req) + int r * uint (src_stride (cfg req)) + i < dst (cfg req)
             \<or> dst (cfg req) + (uint (height (cfg req)) - 1) * uint (dst_stride (cfg req))
                 + uint (width (cfg req) * bpp (cfg req))
               \<le> src (cfg req) + int r * uint (src_stride (cfg req)) + i)"
  then show "ram (dma_worker req w) (dst (cfg req) + int r * uint (dst_stride (cfg req)) + i)
              = ram w (src (cfg req) + int r * uint (src_stride (cfg req)) + i)"
    by (intro dma_worker_ram_content) simp_all
qed

theorem dma_worker_row_copies_witness:
  "trace (dma_worker
            \<lparr>cfg = \<lparr>src = 536870912, dst = 268435456, width = 100, height = 50,
                    src_stride = 4096, dst_stride = 3840, bpp = 4\<rparr>,
             disp = 1, notify = False\<rparr> test_world)
     = map (\<lambda>r. Memcpy (268435456 + int r * 3840) (536870912 + int r * 4096) 400) [0 ..< 50]
   \<and> ram (dma_worker
            \<lparr>cfg = \<lparr>src = 536870912, dst = 268435456, width = 100, height = 50,
                    src_stride = 4096, dst_stride = 3840, bpp = 4\<rparr>,
             disp = 1, notify = False\<rparr> test_world) (268435456 + 49 * 3840 + 400)
     = ram test_world (268435456 + 49 * 3840 + 400)
   \<and> ram (test_world\<lparr>ram := (\<lambda>a. word_of_int (a div 1000))\<rparr>) (268435456 + 49 * 3840 + 399) = 80
   \<and> ram (dma_worker
            \<lparr>cfg = \<lparr>src = 536870912, dst = 268435456, width = 100, height = 50,
                    src_stride = 4096, dst_stride = 3840, bpp = 4\<rparr>,
             disp = 1, notify = False\<rparr>
            (test_world\<lparr>ram := (\<lambda>a. word_of_int (a div 1000))\<rparr>))
         (268435456 + 49 * 3840 + 399)
     = 240"
proof -
  let ?req = "\<lparr>cfg = \<lparr>src = 536870912, dst = 268435456, width = 100, height = 50,
                    src_stride = 4096, dst_stride = 3840, bpp = 4\<rparr>,
             disp = 1, notify = False\<rparr>"
  let ?w = "test_world\<lparr>ram := (\<lambda>a. word_of_int (a div 1000))\<rparr>"
  have frame: "trace (dma_worker ?req test_world)
     = map (\<lambda>r. Memcpy (268435456 + int r * 3840) (536870912 + int r * 4096) 400) [0 ..< 50]
   \<and> ram (dma_worker ?req test_world) (268435456 + 49 * 3840 + 400)
     = ram test_world (268435456 + 49 * 3840 + 400)"
    using dma_worker_row_copies [of ?req test_world]
    by (simp add: row_copies_def test_world_def)
  have "ram (dma_worker ?req ?w) (dst (cfg ?req) + int 49 * uint (dst_stride (cfg ?req)) + 399)
          = ram ?w (src (cfg ?req) + int 49 * uint (src_stride (cfg ?req)) + 399)"
    using dma_worker_row_copies [of ?req ?w]
    by (elim conjE allE [of _ 49] allE [of _ 399] impE) simp_all
  then have content: "ram (dma_worker ?req ?w) (268435456 + 49 * 3840 + 399) = 240"
    by simp
  have before: "ram ?w (268435456 + 49 * 3840 + 399) = 80"
    by simp
  show ?thesis
    using frame content before by simp
qed

section \<open>Completion\<close>

text \<open>
  Claim C4 does not hold as it is stated: the region \<open>(959, 0)-(960, 0)\<close> submits the left job and
  then the right job, which carries the notification.  An execution facility that runs
  the right job first calls \<open>lv_display_flush_ready\<close> before the row of the left job has
  been copied.
\<close>

theorem completion_before_left_job_counterexample:
  "hpwork (dualscreen_flush_cb wq_accept 1 \<lparr>x1 = 959, y1 = 0, x2 = 960, y2 = 0\<rparr> 536870912 test_world)
     = [0, 1]
   \<and> trace (run_items [1, 0]
        (dualscreen_flush_cb wq_accept 1 \<lparr>x1 = 959, y1 = 0, x2 = 960, y2 = 0\<rparr> 536870912 test_world))
     = [WorkQueue 0 \<lparr>cfg = rect_job 536870912 268435456 3840 0 (959, 0, 959, 0),
                     disp = 1, notify = False\<rparr>,
        WorkQueue 1 \<lparr>cfg = rect_job 536870912 272629760 3840 960 (0, 0, 0, 0),
                     disp = 1, notify = True\<rparr>,
        Memcpy 272629760 536874752 4,
        FlushReady 1,
        Memcpy 268439292 536874748 4]"
proof -
  have v: "valid_area \<lparr>x1 = 959, y1 = 0, x2 = 960, y2 = 0\<rparr>"
    by (simp add: valid_area_def)
  have len: "length (dma_req (g_ctx test_world)) = 2"
    by (simp add: test_world_def test_ctx_def)
  show ?thesis
    by (simp add: run_item_trace run_item_ctx flush_trace flush_hpwork flush_dma_req
        left_cfg_valid [OF v] right_cfg_valid [OF v] wq_accept_def test_world_def test_ctx_def
        row_copies_def rect_job_def Let_def)
qed

text \<open>
  Claim C4, in the form that holds.  For every valid dirty region and a display that is not \<open>NULL\<close>,
  with the two request structures in place and nothing pending, on a work queue that
  accepts the submissions and runs the pending items one at a time in submission order:
  the flush callback itself makes no completion call, and running the pending items makes
  all row copies of every submitted job, in submission order, and then exactly one call of
  \<open>lv_display_flush_ready\<close>, after which nothing is pending.
\<close>

theorem completion_once_after_all_rows_fifo:
  assumes "valid_area a" and "dsp \<noteq> NULL"
    and "length (dma_req (g_ctx w)) = 2" and "hpwork w = []"
  shows "trace (run_items (hpwork (dualscreen_flush_cb wq_accept dsp a color_p w))
                  (dualscreen_flush_cb wq_accept dsp a color_p w))
           = trace (dualscreen_flush_cb wq_accept dsp a color_p w)
             @ concat (map job_rows
                 (drop (length (trace w)) (trace (dualscreen_flush_cb wq_accept dsp a color_p w))))
             @ [FlushReady dsp]
         \<and> filter is_FlushReady
             (drop (length (trace w)) (trace (dualscreen_flush_cb wq_accept dsp a color_p w))) = []
         \<and> length (filter is_FlushReady
             (drop (length (trace w))
                (trace (run_items (hpwork (dualscreen_flush_cb wq_accept dsp a color_p w))
                          (dualscreen_flush_cb wq_accept dsp a color_p w))))) = 1
         \<and> hpwork (run_items (hpwork (dualscreen_flush_cb wq_accept dsp a color_p w))
                  (dualscreen_flush_cb wq_accept dsp a color_p w)) = []"
proof -
  obtain r0 r1 where rs: "dma_req (g_ctx w) = [r0, r1]"
    using assms(3) by (auto simp: length_Suc_conv numeral_2_eq_2)
  have some: "sint (x1 a) < 960 \<or> 960 \<le> sint (x2 a)"
    using assms(1) unfolding valid_area_def by linarith
  show ?thesis
    using assms(2,4) some
    by (auto simp add: run_item_trace run_item_ctx run_item_hpwork flush_trace flush_hpwork flush_dma_req
        wq_accept_def rs Let_def row_copies_no_flush_ready)
qed

theorem completion_once_after_all_rows_fifo_witness:
  "valid_area \<lparr>x1 = 959, y1 = 0, x2 = 960, y2 = 0\<rparr> \<and> (1::int) \<noteq> NULL
   \<and> length (dma_req (g_ctx test_world)) = 2 \<and> hpwork test_world = []
   \<and> trace (run_items (hpwork (dualscreen_flush_cb wq_accept 1 \<lparr>x1 = 959, y1 = 0, x2 = 960, y2 = 0\<rparr> 536870912 test_world))
                  (dualscreen_flush_cb wq_accept 1 \<lparr>x1 = 959, y1 = 0, x2 = 960, y2 = 0\<rparr> 536870912 test_world))
     = [WorkQueue 0 \<lparr>cfg = rect_job 536870912 268435456 3840 0 (959, 0, 959, 0),
                     disp = 1, notify = False\<rparr>,
        WorkQueue 1 \<lparr>cfg = rect_job 536870912 272629760 3840 960 (0, 0, 0, 0),
                     disp = 1, notify = True\<rparr>,
        Memcpy 268439292 536874748 4,
        Memcpy 272629760 536874752 4,
        FlushReady 1]"
proof -
  have v: "valid_area \<lparr>x1 = 959, y1 = 0, x2 = 960, y2 = 0\<rparr>"
    by (simp add: valid_area_def)
  have d: "(1::int) \<noteq> NULL"
    by simp
  have len: "length (dma_req (g_ctx test_world)) = 2"
    by (simp add: test_world_def test_ctx_def)
  have q: "hpwork test_world = []"
    by (simp add: test_world_def)
  show ?thesis
    using v len q completion_once_after_all_rows_fifo [OF v d len q, of 536870912]
    by (simp add: flush_trace left_cfg_valid [OF v] right_cfg_valid [OF v] test_world_def test_ctx_def
        row_copies_def rect_job_def)
qed

text \<open>
  Claim C5 does not hold as it is stated: for the region \<open>(1000, 0)-(500, 0)\<close> the flush callback
  submits no job and makes no completion call.
\<close>

theorem no_job_no_completion_counterexample:
  "\<not> (length (filter is_FlushReady
         (trace (dualscreen_flush_cb wq_accept 1 \<lparr>x1 = 1000, y1 = 0, x2 = 500, y2 = 0\<rparr>
                   536870912 test_world))) = 1)
   \<and> filter is_WorkQueue
         (trace (dualscreen_flush_cb wq_accept 1 \<lparr>x1 = 1000, y1 = 0, x2 = 500, y2 = 0\<rparr>
                   536870912 test_world)) = []"
  by (simp add: flush_trace test_world_def)

text \<open>
  Claim C5, in the form that holds.  The flush callback submits zero transfer jobs exactly for the
  regions with \<open>x1 \<ge> 960\<close> and \<open>x2 < 960\<close>, and for these it returns with the state
  unchanged: no job is submitted and the completion callback is not invoked.
\<close>

theorem no_job_no_completion:
  "(filter is_WorkQueue (drop (length (trace w)) (trace (dualscreen_flush_cb wq dsp area color_p w))) = []
      \<longleftrightarrow> 960 \<le> sint (x1 area) \<and> sint (x2 area) < 960)
   \<and> (960 \<le> sint (x1 area) \<and> sint (x2 area) < 960
        \<longrightarrow> dualscreen_flush_cb wq dsp area color_p w = w)"
proof
  show "filter is_WorkQueue
          (drop (length (trace w)) (trace (dualscreen_flush_cb wq dsp area color_p w))) = []
        \<longleftrightarrow> 960 \<le> sint (x1 area) \<and> sint (x2 area) < 960"
    by (simp add: flush_trace)
  show "960 \<le> sint (x1 area) \<and> sint (x2 area) < 960
        \<longrightarrow> dualscreen_flush_cb wq dsp area color_p w = w"
    by (simp add: dualscreen_flush_cb_def Let_def sless_960 sle_960)
qed

theorem no_job_no_completion_witness:
  "dualscreen_flush_cb wq_accept 1 \<lparr>x1 = 1000, y1 = 0, x2 = 500, y2 = 0\<rparr> 536870912 test_world
     = test_world"
  using no_job_no_completion [of test_world wq_accept 1 "\<lparr>x1 = 1000, y1 = 0, x2 = 500, y2 = 0\<rparr>" 536870912]
  by simp

section \<open>Failed submission\<close>

text \<open>
  Claim C7 does not hold as it is stated: on a work queue that rejects the submission, the flush of
  the region \<open>(0, 0)-(0, 0)\<close> calls \<open>work_queue\<close> once, copies nothing, and leaves nothing
  pending.
\<close>

theorem failed_submission_counterexample:
  "fst (wq_reject (hpwork test_world) 0) < 0
   \<and> trace (dualscreen_flush_cb wq_reject 1 \<lparr>x1 = 0, y1 = 0, x2 = 0, y2 = 0\<rparr> 536870912 test_world)
       = [WorkQueue 0 \<lparr>cfg = left_dma_cfg test_ctx \<lparr>x1 = 0, y1 = 0, x2 = 0, y2 = 0\<rparr> 536870912,
                       disp = 1, notify = True\<rparr>]
   \<and> hpwork (dualscreen_flush_cb wq_reject 1 \<lparr>x1 = 0, y1 = 0, x2 = 0, y2 = 0\<rparr> 536870912 test_world) = []
   \<and> ram (dualscreen_flush_cb wq_reject 1 \<lparr>x1 = 0, y1 = 0, x2 = 0, y2 = 0\<rparr> 536870912 test_world)
     = ram test_world"
  by (simp add: flush_trace flush_hpwork flush_ram test_world_def wq_reject_def)

text \<open>
  Claim C7, in the form that holds.  If the submission of a transfer job fails, \<open>sim_dma_transfer_2d\<close>
  does not notice: it has called \<open>work_queue\<close> exactly once, the pending items are what
  the work queue left, and no byte has been copied (no retry, no synchronous execution).
\<close>

theorem failed_submission_ignored:
  assumes "fst (wq (hpwork w) i) < 0"
  shows "trace (sim_dma_transfer_2d wq c dsp ntf i w)
           = trace w @ [WorkQueue i \<lparr>cfg = c, disp = dsp, notify = ntf\<rparr>]
         \<and> hpwork (sim_dma_transfer_2d wq c dsp ntf i w) = snd (wq (hpwork w) i)
         \<and> ram (sim_dma_transfer_2d wq c dsp ntf i w) = ram w"
  by (simp add: sim_trace sim_hpwork sim_ram)

theorem failed_submission_ignored_witness:
  "fst (wq_reject (hpwork test_world) 0) < 0
   \<and> trace (sim_dma_transfer_2d wq_reject (rect_job 536870912 268435456 3840 0 (0, 0, 0, 0)) 1 True 0 test_world)
       = [WorkQueue 0 \<lparr>cfg = rect_job 536870912 268435456 3840 0 (0, 0, 0, 0), disp = 1, notify = True\<rparr>]
   \<and> hpwork (sim_dma_transfer_2d wq_reject (rect_job 536870912 268435456 3840 0 (0, 0, 0, 0)) 1 True 0 test_world) = []"
proof -
  have h: "fst (wq_reject (hpwork test_world) 0) < 0"
    by (simp add: wq_reject_def)
  show ?thesis
    using h failed_submission_ignored [where wq = wq_reject and w = test_world and i = 0
        and c = "rect_job 536870912 268435456 3840 0 (0, 0, 0, 0)" and dsp = 1 and ntf = True]
    by (simp add: test_world_def wq_reject_def)
qed

section \<open>Acquisition failures\<close>

text \<open>When no step fails the display is the one \<open>lv_display_create\<close> returned.\<close>

lemma create_dualscreen_display_success:
  assumes "\<not> acquisition_fails env"
  shows "fst (create_dualscreen_display env ctx s) = lv_display_create_ret env
         \<and> lv_display_create_ret env \<noteq> NULL"
  using assms
  by (auto simp add: create_dualscreen_display_def init_framebuffer_cases acquisition_fails_def
      Let_def set_left_def set_right_def left_out_def right_out_def)

text \<open>
  Claim C8.  If any step of the acquisition fails (\<open>open\<close>, one of the \<open>ioctl\<close> calls or
  \<open>mmap\<close> for either framebuffer, either allocation, or the creation of the display),
  \<open>create_dualscreen_display\<close> returns \<open>NULL\<close> and the open file descriptors, the memory
  mappings and the heap blocks are what they were before the call.
\<close>

theorem create_failure_releases_all:
  assumes "acquisition_fails env"
  shows "fst (create_dualscreen_display env ctx s) = NULL
         \<and> snd (snd (create_dualscreen_display env ctx s)) = s"
  using assms
  by (auto simp add: create_dualscreen_display_def init_framebuffer_cases acquisition_fails_def
      Let_def set_left_def set_right_def left_out_def right_out_def
      os_close_def os_munmap_def os_malloc_def os_free_def)

theorem create_failure_releases_all_witness:
  "acquisition_fails (test_env\<lparr>malloc_2nd := NULL\<rparr>)
   \<and> fst (create_dualscreen_display (test_env\<lparr>malloc_2nd := NULL\<rparr>) test_ctx test_sys) = NULL
   \<and> snd (snd (create_dualscreen_display (test_env\<lparr>malloc_2nd := NULL\<rparr>) test_ctx test_sys))
       = test_sys"
proof -
  have f: "acquisition_fails (test_env\<lparr>malloc_2nd := NULL\<rparr>)"
    by (simp add: acquisition_fails_def)
  show ?thesis
    using f create_failure_releases_all [OF f, of test_ctx test_sys]
    by simp
qed

text \<open>
  Claim C10.  When \<open>init_framebuffer\<close> fails at \<open>mmap\<close> it returns -1, the file
  descriptor is closed again (the resources are those before the call), \<open>*mem\<close> holds
  \<open>MAP_FAILED\<close>, and \<open>*stride\<close> and \<open>*fblen\<close> keep their contents.  The function returns 0
  or -1; whenever it returns -1, \<open>*stride\<close> and \<open>*fblen\<close> are unwritten, and when it
  returns 0 they hold the plane information.
\<close>

theorem init_framebuffer_mmap_failure:
  "(0 \<le> open_ret (dev env path) \<and> 0 \<le> videoinfo_ret (dev env path)
      \<and> 0 \<le> planeinfo_ret (dev env path) \<and> mmap_ret (dev env path) = MAP_FAILED
      \<longrightarrow> init_framebuffer env path out s
            = (- 1, out\<lparr>out_fd := open_ret (dev env path), out_mem := MAP_FAILED\<rparr>, s))
   \<and> (fst (init_framebuffer env path out s) = 0 \<or> fst (init_framebuffer env path out s) = - 1)
   \<and> (fst (init_framebuffer env path out s) = - 1
        \<longrightarrow> out_stride (fst (snd (init_framebuffer env path out s))) = out_stride out
            \<and> out_fblen (fst (snd (init_framebuffer env path out s))) = out_fblen out)
   \<and> (fst (init_framebuffer env path out s) = 0
        \<longrightarrow> out_stride (fst (snd (init_framebuffer env path out s))) = pinfo_stride (dev env path)
            \<and> out_fblen (fst (snd (init_framebuffer env path out s))) = pinfo_fblen (dev env path))"
  by (simp add: init_framebuffer_cases dev_fails_def)

theorem init_framebuffer_mmap_failure_witness:
  "init_framebuffer (test_env\<lparr>dev := (\<lambda>p. test_dev\<lparr>mmap_ret := MAP_FAILED\<rparr>)\<rparr>)
       ''/dev/fb0'' test_out test_sys
     = (- 1, \<lparr>out_fd = 3, out_mem = MAP_FAILED, out_stride = 0, out_fblen = 0\<rparr>, test_sys)
   \<and> fst (init_framebuffer test_env ''/dev/fb0'' test_out test_sys) = 0
   \<and> out_stride (fst (snd (init_framebuffer test_env ''/dev/fb0'' test_out test_sys))) = 3840
   \<and> out_fblen (fst (snd (init_framebuffer test_env ''/dev/fb0'' test_out test_sys))) = 2764800"
proof -
  have ok: "fst (init_framebuffer test_env ''/dev/fb0'' test_out test_sys) = 0"
    by (simp add: init_framebuffer_cases dev_fails_def test_env_def test_dev_def)
  show ?thesis
    using ok
      init_framebuffer_mmap_failure
        [of "test_env\<lparr>dev := (\<lambda>p. test_dev\<lparr>mmap_ret := MAP_FAILED\<rparr>)\<rparr>" "''/dev/fb0''"
            test_out test_sys]
      init_framebuffer_mmap_failure [of test_env "''/dev/fb0''" test_out test_sys]
    by (simp add: test_env_def test_dev_def test_out_def)
qed

end
